theory Spec2Isabelle
  imports Complex_Main
begin

section \<open>Python values, dictionaries and exceptions\<close>

text \<open>
  The values that travel through the handlers: what \<open>request.get_json()\<close> and
  \<open>response.json()\<close> return, what a row of the SQLite store becomes under \<open>dict(row)\<close>,
  and the dictionaries the functions return. A dictionary is an association list read by
  its first binding of a key. A finite float is represented by its numeric value.
\<close>

datatype pyval =
    PNone
  | PBool bool
  | PInt int
  | PFloat rat
  | PStr string
  | PList "pyval list"
  | PDict "(string \<times> pyval) list"

text \<open>
  Exceptions by class, each with its message. \<open>LibraryError\<close> stands for whatever a
  library outside the repository raises (requests, Flask, routeros_api): every handler of
  the source catches it as \<open>Exception\<close> and only reads \<open>str(e)\<close>.
\<close>

datatype exn =
    Exception string
  | ValueError string
  | KeyError string
  | TypeError string
  | AttributeError string
  | OverflowError string
  | LibraryError string

fun str_exn :: "exn \<Rightarrow> string" where
  "str_exn (Exception m) = m"
| "str_exn (ValueError m) = m"
| "str_exn (KeyError k) = [CHR 0x27] @ k @ [CHR 0x27]"
| "str_exn (TypeError m) = m"
| "str_exn (AttributeError m) = m"
| "str_exn (OverflowError m) = m"
| "str_exn (LibraryError m) = m"

fun type_name :: "pyval \<Rightarrow> string" where
  "type_name PNone = ''NoneType''"
| "type_name (PBool _) = ''bool''"
| "type_name (PInt _) = ''int''"
| "type_name (PFloat _) = ''float''"
| "type_name (PStr _) = ''str''"
| "type_name (PList _) = ''list''"
| "type_name (PDict _) = ''dict''"

definition no_attribute :: "pyval \<Rightarrow> string \<Rightarrow> exn" where
  "no_attribute v a =
     AttributeError ([CHR 0x27] @ type_name v @ [CHR 0x27] @ '' object has no attribute ''
                     @ [CHR 0x27] @ a @ [CHR 0x27])"

text \<open>\<open>bool(v)\<close>, as an \<open>if\<close> reads its condition.\<close>

fun truthy :: "pyval \<Rightarrow> bool" where
  "truthy PNone = False"
| "truthy (PBool b) = b"
| "truthy (PInt i) = (i \<noteq> 0)"
| "truthy (PFloat r) = (r \<noteq> 0)"
| "truthy (PStr s) = (s \<noteq> [])"
| "truthy (PList xs) = (xs \<noteq> [])"
| "truthy (PDict d) = (d \<noteq> [])"

text \<open>\<open>v == 0\<close>: Python compares numbers by value, and \<open>False == 0\<close> holds.\<close>

fun eq_zero :: "pyval \<Rightarrow> bool" where
  "eq_zero (PInt i) = (i = 0)"
| "eq_zero (PFloat r) = (r = 0)"
| "eq_zero (PBool b) = (\<not> b)"
| "eq_zero _ = False"

text \<open>\<open>d.get(k)\<close> and \<open>d.get(k, default)\<close>; only a dict has the method.\<close>

definition dict_get :: "pyval \<Rightarrow> string \<Rightarrow> pyval \<Rightarrow> exn + pyval" where
  "dict_get d k dflt =
     (case d of
        PDict kvs \<Rightarrow> (case map_of kvs k of Some v \<Rightarrow> Inr v | None \<Rightarrow> Inr dflt)
      | _ \<Rightarrow> Inl (no_attribute d ''get''))"

text \<open>\<open>d[k]\<close> with a string key.\<close>

definition subscript :: "pyval \<Rightarrow> string \<Rightarrow> exn + pyval" where
  "subscript d k =
     (case d of
        PDict kvs \<Rightarrow> (case map_of kvs k of Some v \<Rightarrow> Inr v | None \<Rightarrow> Inl (KeyError k))
      | PList _ \<Rightarrow> Inl (TypeError ''list indices must be integers or slices, not str'')
      | PStr _ \<Rightarrow> Inl (TypeError ''string indices must be integers'')
      | _ \<Rightarrow> Inl (TypeError ([CHR 0x27] @ type_name d @ [CHR 0x27]
                               @ '' object is not subscriptable'')))"

definition startswith :: "string \<Rightarrow> string \<Rightarrow> bool" where
  "startswith s p = (take (length p) s = p)"

fun contains :: "string \<Rightarrow> string \<Rightarrow> bool" where
  "contains [] p = (p = [])"
| "contains (c # cs) p = (startswith (c # cs) p \<or> contains cs p)"

text \<open>\<open>k in v\<close> for a string \<open>k\<close>: key of a dict, element of a list, substring of a string.\<close>

definition py_in :: "string \<Rightarrow> pyval \<Rightarrow> exn + bool" where
  "py_in k v =
     (case v of
        PDict kvs \<Rightarrow> Inr (k \<in> set (map fst kvs))
      | PList xs \<Rightarrow> Inr (PStr k \<in> set xs)
      | PStr s \<Rightarrow> Inr (contains s k)
      | _ \<Rightarrow> Inl (TypeError (''argument of type '' @ [CHR 0x27] @ type_name v @ [CHR 0x27]
                               @ '' is not iterable'')))"

text \<open>Decimal text of an integer, as \<open>str\<close> and an f-string print it.\<close>

fun str_nat :: "nat \<Rightarrow> string" where
  "str_nat n =
     (if n < 10 then [''0123456789'' ! n]
      else str_nat (n div 10) @ [''0123456789'' ! (n mod 10)])"

declare str_nat.simps [simp del]

definition str_int :: "int \<Rightarrow> string" where
  "str_int i = (if i < 0 then CHR ''-'' # str_nat (nat (- i)) else str_nat (nat i))"

section \<open>mpesa_stkpush.py\<close>

text \<open>
  What the module reads from outside itself. The two gateway endpoints each answer once per
  payment: either \<open>requests\<close> raises, or a response arrives with a status code and a
  body on which \<open>response.json()\<close> raises or returns a value. The three clock readings
  are \<open>datetime.now().strftime('%Y%m%d%H%M%S')\<close> in the order the code takes them.
  \<open>sha256_hexdigest\<close> is \<open>hashlib.sha256(s.encode()).hexdigest()\<close>, and \<open>repr_value\<close>
  is Python's text of a float, list or dict inside an f-string.
\<close>

datatype reply =
    Unreachable string
  | Reply int "string + pyval"

record world =
  oauth_reply :: reply
  stk_reply :: reply
  clock_reference :: string
  clock_timestamp :: string
  clock_password :: string
  sha256_hexdigest :: "string \<Rightarrow> string"
  repr_value :: "pyval \<Rightarrow> string"

text \<open>Outbound HTTP requests, in the order they are made.\<close>

datatype call =
    HttpGet string
  | HttpPost string "(string \<times> string) list" pyval

definition format_value :: "world \<Rightarrow> pyval \<Rightarrow> string" where
  "format_value w v =
     (case v of
        PStr s \<Rightarrow> s
      | PNone \<Rightarrow> ''None''
      | PBool b \<Rightarrow> (if b then ''True'' else ''False'')
      | PInt i \<Rightarrow> str_int i
      | _ \<Rightarrow> repr_value w v)"

text \<open>\<open>MPESA_CONFIG\<close> and the \<open>mpesa\<close> instance built from it.\<close>

definition consumer_secret :: string where
  "consumer_secret = ''your_consumer_secret_here''"

definition paybill :: string where
  "paybill = ''123456''"

definition base_url :: string where
  "base_url = ''https://sandbox.safaricom.co.ke''"

definition oauth_url :: string where
  "oauth_url = base_url @ ''/oauth/v1/generate?grant_type=client_credentials''"

definition stk_url :: string where
  "stk_url = base_url @ ''/mpesa/stkpush/v1/processrequest''"

text \<open>
  \<open>MpesaSTKPush.get_access_token\<close>: one GET; every failure, the non-200 status included,
  is raised again as \<open>Access token error: ...\<close>. The token is also kept in
  \<open>self.access_token\<close>, which nothing reads.
\<close>

definition get_access_token :: "world \<Rightarrow> exn + pyval" where
  "get_access_token w =
     (case (case oauth_reply w of
              Unreachable m \<Rightarrow> Inl (LibraryError m)
            | Reply status body \<Rightarrow>
                if status = 200 then
                  (case body of
                     Inl m \<Rightarrow> Inl (LibraryError m)
                   | Inr data \<Rightarrow> subscript data ''access_token'')
                else Inl (Exception (''Failed to get access token: '' @ str_int status)))
      of Inl e \<Rightarrow> Inl (Exception (''Access token error: '' @ str_exn e))
       | Inr token \<Rightarrow> Inr token)"

definition generate_password :: "world \<Rightarrow> string" where
  "generate_password w = sha256_hexdigest w (paybill @ consumer_secret @ clock_password w)"

definition stk_push_data :: "world \<Rightarrow> pyval \<Rightarrow> pyval \<Rightarrow> pyval \<Rightarrow> string \<Rightarrow> string \<Rightarrow> pyval" where
  "stk_push_data w phone_number amount package_name account_reference callback_url =
     PDict [(''BusinessShortCode'', PStr paybill),
            (''Password'', PStr (generate_password w)),
            (''Timestamp'', PStr (clock_timestamp w)),
            (''TransactionType'', PStr ''CustomerPayBillOnline''),
            (''Amount'', amount),
            (''PartyA'', phone_number),
            (''PartyB'', PStr paybill),
            (''PhoneNumber'', phone_number),
            (''CallBackURL'', PStr callback_url),
            (''AccountReference'', PStr account_reference),
            (''TransactionDesc'', PStr (''FortuNet '' @ format_value w package_name))]"

definition stk_headers :: "world \<Rightarrow> pyval \<Rightarrow> (string \<times> string) list" where
  "stk_headers w access_token =
     [(''Authorization'', ''Bearer '' @ format_value w access_token),
      (''Content-Type'', ''application/json'')]"

text \<open>The \<open>try\<close> block of \<open>initiate_stk_push\<close>, with the requests it has made.\<close>

definition stk_push_attempt ::
  "world \<Rightarrow> pyval \<Rightarrow> pyval \<Rightarrow> pyval \<Rightarrow> string \<Rightarrow> string \<Rightarrow> (exn + pyval) \<times> call list" where
  "stk_push_attempt w phone_number amount package_name account_reference callback_url =
     (case get_access_token w of
        Inl e \<Rightarrow> (Inl e, [HttpGet oauth_url])
      | Inr access_token \<Rightarrow>
          (let data = stk_push_data w phone_number amount package_name account_reference
                        callback_url;
               calls = [HttpGet oauth_url, HttpPost stk_url (stk_headers w access_token) data]
           in case stk_reply w of
                Unreachable m \<Rightarrow> (Inl (LibraryError m), calls)
              | Reply status body \<Rightarrow>
                  if status = 200 then
                    (case body of
                       Inl m \<Rightarrow> (Inl (LibraryError m), calls)
                     | Inr result \<Rightarrow>
                         (case dict_get result ''CheckoutRequestID'' PNone of
                            Inl e \<Rightarrow> (Inl e, calls)
                          | Inr checkout \<Rightarrow>
                         (case dict_get result ''MerchantRequestID'' PNone of
                            Inl e \<Rightarrow> (Inl e, calls)
                          | Inr merchant \<Rightarrow>
                         (case dict_get result ''ResponseCode'' PNone of
                            Inl e \<Rightarrow> (Inl e, calls)
                          | Inr code \<Rightarrow>
                         (case dict_get result ''ResponseDescription'' PNone of
                            Inl e \<Rightarrow> (Inl e, calls)
                          | Inr description \<Rightarrow>
                         (case dict_get result ''CustomerMessage'' PNone of
                            Inl e \<Rightarrow> (Inl e, calls)
                          | Inr message \<Rightarrow>
                              (Inr (PDict [(''success'', PBool True),
                                           (''checkout_request_id'', checkout),
                                           (''merchant_request_id'', merchant),
                                           (''response_code'', code),
                                           (''response_description'', description),
                                           (''customer_message'', message)]), calls)))))))
                  else (Inl (Exception (''STK push failed: '' @ str_int status)), calls)))"

text \<open>\<open>except Exception as e: return {'success': False, 'error': str(e)}\<close>\<close>

definition failure_dict :: "exn \<Rightarrow> pyval" where
  "failure_dict e = PDict [(''success'', PBool False), (''error'', PStr (str_exn e))]"

definition initiate_stk_push ::
  "world \<Rightarrow> pyval \<Rightarrow> pyval \<Rightarrow> pyval \<Rightarrow> string \<Rightarrow> string \<Rightarrow> (exn + pyval) \<times> call list" where
  "initiate_stk_push w phone_number amount package_name account_reference callback_url =
     (case stk_push_attempt w phone_number amount package_name account_reference callback_url of
        (Inl e, calls) \<Rightarrow> (Inr (failure_dict e), calls)
      | (Inr result, calls) \<Rightarrow> (Inr result, calls))"

text \<open>
  The "Format phone number" step of \<open>process_payment\<close>: a leading \<open>0\<close> becomes \<open>254\<close>,
  a leading \<open>+\<close> is dropped, anything else is kept as it is. Only a \<open>str\<close> has
  \<open>startswith\<close>.
\<close>

definition format_phone_number :: "pyval \<Rightarrow> exn + pyval" where
  "format_phone_number phone_number =
     (case phone_number of
        PStr s \<Rightarrow>
          if startswith s ''0'' then Inr (PStr (''254'' @ drop 1 s))
          else if startswith s ''+'' then Inr (PStr (drop 1 s))
          else Inr (PStr s)
      | _ \<Rightarrow> Inl (no_attribute phone_number ''startswith''))"

definition callback_url :: string where
  "callback_url = ''https://your-domain.com/api/mpesa-callback''"

definition process_payment ::
  "world \<Rightarrow> pyval \<Rightarrow> pyval \<Rightarrow> pyval \<Rightarrow> pyval \<Rightarrow> (exn + pyval) \<times> call list" where
  "process_payment w phone_number amount package_name user_id =
     (case (case format_phone_number phone_number of
              Inl e \<Rightarrow> (Inl e, [])
            | Inr phone \<Rightarrow>
                (let account_reference =
                       ''FortuNet-'' @ format_value w user_id @ ''-'' @ clock_reference w
                 in initiate_stk_push w phone amount package_name account_reference
                      callback_url))
      of (Inl e, calls) \<Rightarrow> (Inr (failure_dict e), calls)
       | (Inr result, calls) \<Rightarrow> (Inr result, calls))"

section \<open>database.py\<close>

text \<open>
  The three tables the functions below read and write, one record per row, columns as the
  \<open>CREATE TABLE\<close> statements of \<open>init_database\<close> declare them: a nullable column is an
  \<open>option\<close>, \<open>None\<close> being SQL NULL. Timestamps are seconds on one clock. The table
  \<open>user_sessions\<close> is created but never touched again.
\<close>

record user_row =
  u_id :: int
  u_username :: "string option"
  u_password :: "string option"
  u_phone_number :: string
  u_email :: "string option"
  u_mac_address :: "string option"
  u_created_at :: int
  u_last_login :: "int option"
  u_is_active :: bool
  u_mikrotik_user_id :: "string option"
  u_current_package_id :: "int option"
  u_package_expires_at :: "int option"

record package_row =
  p_id :: int
  p_name :: string
  p_description :: "string option"
  p_price :: rat
  p_duration_hours :: int
  p_data_limit_gb :: "int option"
  p_speed_limit_mbps :: "int option"
  p_package_type :: string
  p_is_active :: bool
  p_created_at :: int

record transaction_row =
  t_id :: int
  t_user_id :: int
  t_package_id :: int
  t_amount :: rat
  t_payment_method :: string
  t_transaction_id :: "string option"
  t_status :: string
  t_phone_number :: string
  t_created_at :: int
  t_completed_at :: "int option"

text \<open>
  The store: rows in insertion order, and for each \<open>AUTOINCREMENT\<close> key the largest id
  handed out so far (SQLite's \<open>sqlite_sequence\<close>).
\<close>

record database =
  users :: "user_row list"
  packages :: "package_row list"
  transactions :: "transaction_row list"
  user_seq :: int
  package_seq :: int
  transaction_seq :: int

definition empty_database :: database where
  "empty_database =
     \<lparr>users = [], packages = [], transactions = [],
      user_seq = 0, package_seq = 0, transaction_seq = 0\<rparr>"

definition opt_str :: "string option \<Rightarrow> pyval" where
  "opt_str x = (case x of None \<Rightarrow> PNone | Some s \<Rightarrow> PStr s)"

definition opt_int :: "int option \<Rightarrow> pyval" where
  "opt_int x = (case x of None \<Rightarrow> PNone | Some i \<Rightarrow> PInt i)"

text \<open>\<open>daily_packages + weekly_packages + monthly_packages\<close>\<close>

definition all_packages ::
  "(string \<times> string \<times> rat \<times> int \<times> int option \<times> int option \<times> string) list" where
  "all_packages =
     [(''24 Hrs Unlimited'', ''24 hours unlimited internet'', 100, 24, None, None, ''daily''),
      (''12 Hrs Unlimited'', ''12 hours unlimited internet'', 50, 12, None, None, ''daily''),
      (''6 Hrs Unlimited'', ''6 hours unlimited internet'', 30, 6, None, None, ''daily''),
      (''1 Hr Unlimited'', ''1 hour unlimited internet'', 20, 1, None, None, ''daily''),
      (''10 GB'', ''10 GB data for 7 days'', 150, 168, Some 10, None, ''weekly''),
      (''20 GB'', ''20 GB data for 7 days'', 250, 168, Some 20, None, ''weekly''),
      (''40 GB'', ''40 GB data for 7 days'', 450, 168, Some 40, None, ''weekly''),
      (''1 Mbps'', ''1 Mbps unlimited for 30 days'', 300, 720, None, Some 1, ''monthly''),
      (''2 Mbps'', ''2 Mbps unlimited for 30 days'', 500, 720, None, Some 2, ''monthly''),
      (''5 Mbps'', ''5 Mbps unlimited for 30 days'', 900, 720, None, Some 5, ''monthly''),
      (''10 Mbps'', ''10 Mbps unlimited for 30 days'', 1500, 720, None, Some 10, ''monthly''),
      (''20 Mbps'', ''20 Mbps unlimited for 30 days'', 2500, 720, None, Some 20, ''monthly'')]"

fun insert_packages ::
  "int \<Rightarrow> (string \<times> string \<times> rat \<times> int \<times> int option \<times> int option \<times> string) list
   \<Rightarrow> database \<Rightarrow> database" where
  "insert_packages now [] db = db"
| "insert_packages now ((name, description, price, hours, gb, mbps, ptype) # rest) db =
     insert_packages now rest
       (db\<lparr>packages := packages db @
              [\<lparr>p_id = package_seq db + 1, p_name = name, p_description = Some description,
                p_price = price, p_duration_hours = hours, p_data_limit_gb = gb,
                p_speed_limit_mbps = mbps, p_package_type = ptype, p_is_active = True,
                p_created_at = now\<rparr>],
            package_seq := package_seq db + 1\<rparr>)"

definition insert_default_packages :: "int \<Rightarrow> database \<Rightarrow> database" where
  "insert_default_packages now db =
     (if length (packages db) > 0 then db else insert_packages now all_packages db)"

text \<open>
  \<open>init_database\<close>: every \<open>CREATE TABLE IF NOT EXISTS\<close> leaves existing rows alone and
  the \<open>ALTER TABLE\<close> is wrapped in its own \<open>try\<close>, so on the rows the only effect is the
  default catalog. A new database file is \<open>init_database now empty_database\<close>.
\<close>

definition init_database :: "int \<Rightarrow> database \<Rightarrow> database" where
  "init_database now db = insert_default_packages now db"

definition create_mac_user ::
  "int \<Rightarrow> database \<Rightarrow> string \<Rightarrow> string \<Rightarrow> string option \<Rightarrow> exn + pyval \<times> database" where
  "create_mac_user now db mac_address phone_number email =
     (if \<exists>u \<in> set (users db). u_mac_address u = Some mac_address
      then Inl (ValueError ''MAC address already exists'')
      else
        (let user_id = user_seq db + 1
         in Inr (PDict [(''id'', PInt user_id),
                        (''mac_address'', PStr mac_address),
                        (''phone_number'', PStr phone_number),
                        (''email'', opt_str email),
                        (''created_at'', PInt now)],
                 db\<lparr>users := users db @
                        [\<lparr>u_id = user_id, u_username = None, u_password = None,
                          u_phone_number = phone_number, u_email = email,
                          u_mac_address = Some mac_address, u_created_at = now,
                          u_last_login = None, u_is_active = True,
                          u_mikrotik_user_id = None, u_current_package_id = None,
                          u_package_expires_at = None\<rparr>],
                    user_seq := user_id\<rparr>)))"

definition delete_mac_user :: "database \<Rightarrow> string \<Rightarrow> exn + database" where
  "delete_mac_user db mac_address =
     (if \<not> (\<exists>u \<in> set (users db). u_mac_address u = Some mac_address)
      then Inl (ValueError ''MAC address not found'')
      else Inr (db\<lparr>users := filter (\<lambda>u. u_mac_address u \<noteq> Some mac_address) (users db)\<rparr>))"

text \<open>\<open>create_user\<close>; \<open>hash\<close> is \<open>hashlib.sha256(password.encode()).hexdigest()\<close>.\<close>

definition create_user ::
  "(string \<Rightarrow> string) \<Rightarrow> int \<Rightarrow> database \<Rightarrow> string \<Rightarrow> string \<Rightarrow> string \<Rightarrow> string option
   \<Rightarrow> exn + pyval \<times> database" where
  "create_user hash now db username password phone_number email =
     (let hashed_password = hash password
      in if \<exists>u \<in> set (users db). u_username u = Some username
         then Inl (ValueError ''Username already exists'')
         else
           (let user_id = user_seq db + 1
            in Inr (PDict [(''id'', PInt user_id),
                           (''username'', PStr username),
                           (''phone_number'', PStr phone_number),
                           (''email'', opt_str email),
                           (''created_at'', PInt now)],
                    db\<lparr>users := users db @
                           [\<lparr>u_id = user_id, u_username = Some username,
                             u_password = Some hashed_password,
                             u_phone_number = phone_number, u_email = email,
                             u_mac_address = None, u_created_at = now,
                             u_last_login = None, u_is_active = True,
                             u_mikrotik_user_id = None, u_current_package_id = None,
                             u_package_expires_at = None\<rparr>],
                       user_seq := user_id\<rparr>)))"

text \<open>
  What SQLite gives back for a \<open>DECIMAL(10,2)\<close> column: the column has NUMERIC affinity,
  so a whole number is stored and read as an integer and any other number as a float.
\<close>

definition numeric_value :: "rat \<Rightarrow> pyval" where
  "numeric_value r = (if of_int (floor r) = r then PInt (floor r) else PFloat r)"

text \<open>\<open>dict(row)\<close> for the column lists of the two \<open>SELECT\<close> statements.\<close>

definition user_dict :: "user_row \<Rightarrow> pyval" where
  "user_dict u =
     PDict [(''id'', PInt (u_id u)),
            (''username'', opt_str (u_username u)),
            (''password'', opt_str (u_password u)),
            (''phone_number'', PStr (u_phone_number u)),
            (''email'', opt_str (u_email u)),
            (''mac_address'', opt_str (u_mac_address u)),
            (''created_at'', PInt (u_created_at u)),
            (''last_login'', opt_int (u_last_login u)),
            (''is_active'', PInt (if u_is_active u then 1 else 0)),
            (''current_package_id'', opt_int (u_current_package_id u)),
            (''package_expires_at'', opt_int (u_package_expires_at u))]"

definition package_dict :: "package_row \<Rightarrow> pyval" where
  "package_dict p =
     PDict [(''id'', PInt (p_id p)),
            (''name'', PStr (p_name p)),
            (''description'', opt_str (p_description p)),
            (''price'', numeric_value (p_price p)),
            (''duration_hours'', PInt (p_duration_hours p)),
            (''data_limit_gb'', opt_int (p_data_limit_gb p)),
            (''speed_limit_mbps'', opt_int (p_speed_limit_mbps p)),
            (''package_type'', PStr (p_package_type p))]"

definition get_user_by_id :: "database \<Rightarrow> int \<Rightarrow> pyval option" where
  "get_user_by_id db user_id =
     map_option user_dict (find (\<lambda>u. u_id u = user_id) (users db))"

definition get_package_by_id :: "database \<Rightarrow> int \<Rightarrow> pyval option" where
  "get_package_by_id db package_id =
     map_option package_dict
       (find (\<lambda>p. p_id p = package_id \<and> p_is_active p) (packages db))"

definition create_transaction ::
  "int \<Rightarrow> database \<Rightarrow> int \<Rightarrow> int \<Rightarrow> rat \<Rightarrow> string \<Rightarrow> string \<Rightarrow> string option
   \<Rightarrow> pyval \<times> database" where
  "create_transaction now db user_id package_id amount payment_method phone_number
     transaction_id =
     (let new_id = transaction_seq db + 1
      in (PDict [(''id'', PInt new_id),
                 (''user_id'', PInt user_id),
                 (''package_id'', PInt package_id),
                 (''amount'', PFloat amount),
                 (''payment_method'', PStr payment_method),
                 (''phone_number'', PStr phone_number),
                 (''status'', PStr ''pending''),
                 (''created_at'', PInt now)],
          db\<lparr>transactions := transactions db @
                 [\<lparr>t_id = new_id, t_user_id = user_id, t_package_id = package_id,
                   t_amount = amount, t_payment_method = payment_method,
                   t_transaction_id = transaction_id, t_status = ''pending'',
                   t_phone_number = phone_number, t_created_at = now,
                   t_completed_at = None\<rparr>],
             transaction_seq := new_id\<rparr>))"

definition update_transaction_status :: "int \<Rightarrow> database \<Rightarrow> int \<Rightarrow> string \<Rightarrow> database" where
  "update_transaction_status now db transaction_id status =
     (let completed_at = (if status = ''completed'' then Some now else None)
      in db\<lparr>transactions :=
              map (\<lambda>t. if t_id t = transaction_id
                       then t\<lparr>t_status := status, t_completed_at := completed_at\<rparr>
                       else t)
                  (transactions db)\<rparr>)"

text \<open>
  \<open>datetime.timedelta(hours=h)\<close> for an integer \<open>h\<close>, in seconds: Python refuses a
  duration of more than 999999999 days either way.
\<close>

definition timedelta_hours :: "int \<Rightarrow> exn + int" where
  "timedelta_hours h =
     (let days = (3600 * h) div 86400
      in if days < - 999999999 \<or> 999999999 < days
         then Inl (OverflowError (''days='' @ str_int days
                                  @ ''; must have magnitude <= 999999999''))
         else Inr (3600 * h))"

text \<open>
  \<open>datetime + timedelta\<close>. A clock reading is the number of seconds from
  1970-01-01 00:00:00 on the clock of \<open>datetime.now()\<close>; a \<open>datetime\<close> lies between
  0001-01-01 00:00:00 and 9999-12-31 23:59:59, and a sum outside that range raises.
\<close>

definition datetime_min :: int where
  "datetime_min = - 62135596800"

definition datetime_max :: int where
  "datetime_max = 253402300799"

definition datetime_add :: "int \<Rightarrow> int \<Rightarrow> exn + int" where
  "datetime_add t delta =
     (if t + delta < datetime_min \<or> datetime_max < t + delta
      then Inl (OverflowError ''date value out of range'')
      else Inr (t + delta))"

text \<open>\<open>assign_package_to_user\<close>; \<open>timedelta\<close> takes a number only.\<close>

definition assign_package_to_user :: "int \<Rightarrow> database \<Rightarrow> int \<Rightarrow> int \<Rightarrow> exn + database" where
  "assign_package_to_user now db user_id package_id =
     (case get_package_by_id db package_id of
        None \<Rightarrow> Inl (ValueError ''Package not found'')
      | Some package \<Rightarrow>
          if \<not> truthy package then Inl (ValueError ''Package not found'')
          else
            (case subscript package ''duration_hours'' of
               Inl e \<Rightarrow> Inl e
             | Inr (PInt hours) \<Rightarrow>
                 (case timedelta_hours hours of
                    Inl e \<Rightarrow> Inl e
                  | Inr delta \<Rightarrow>
                 (case datetime_add now delta of
                    Inl e \<Rightarrow> Inl e
                  | Inr expires_at \<Rightarrow>
                      Inr (db\<lparr>users :=
                                map (\<lambda>u. if u_id u = user_id
                                         then u\<lparr>u_current_package_id := Some package_id,
                                                u_package_expires_at := Some expires_at\<rparr>
                                         else u)
                                    (users db)\<rparr>)))
             | Inr v \<Rightarrow>
                 Inl (TypeError (''unsupported type for timedelta hours component: ''
                                 @ type_name v))))"

definition update_last_login :: "int \<Rightarrow> database \<Rightarrow> int \<Rightarrow> database" where
  "update_last_login now db user_id =
     db\<lparr>users := map (\<lambda>u. if u_id u = user_id then u\<lparr>u_last_login := Some now\<rparr> else u)
                     (users db)\<rparr>"

section \<open>flask_api_endpoints.py\<close>

text \<open>
  A handler receives what \<open>request.get_json()\<close> gives for the request: the parsed body,
  or the exception Flask raises on a body it cannot parse. It answers with a JSON body
  and a status code (\<open>jsonify(x)\<close> alone is status 200). The handlers share the global
  \<open>db\<close>, which is passed in and returned.
\<close>

type_synonym response = "pyval \<times> int"

definition required_fields :: "string list" where
  "required_fields = [''phoneNumber'', ''packageId'', ''amount'', ''packageName'']"

text \<open>The \<open>for field in required_fields\<close> loop: the first field that is not in \<open>data\<close>.\<close>

fun missing_field :: "string list \<Rightarrow> pyval \<Rightarrow> exn + string option" where
  "missing_field [] data = Inr None"
| "missing_field (field # rest) data =
     (case py_in field data of
        Inl e \<Rightarrow> Inl e
      | Inr present \<Rightarrow> if \<not> present then Inr (Some field) else missing_field rest data)"

text \<open>
  The \<open>try\<close> block of \<open>initiate_payment\<close>. The lines that would save a transaction are
  comments in the source, so the store is returned as it came.
\<close>

definition initiate_payment_attempt ::
  "world \<Rightarrow> exn + pyval \<Rightarrow> database \<Rightarrow> (exn + response) \<times> call list \<times> database" where
  "initiate_payment_attempt w body db =
     (case body of
        Inl e \<Rightarrow> (Inl e, [], db)
      | Inr data \<Rightarrow>
     (case missing_field required_fields data of
        Inl e \<Rightarrow> (Inl e, [], db)
      | Inr (Some field) \<Rightarrow>
          (Inr (PDict [(''error'', PStr (''Missing required field: '' @ field))], 400), [], db)
      | Inr None \<Rightarrow>
     (case subscript data ''phoneNumber'' of
        Inl e \<Rightarrow> (Inl e, [], db)
      | Inr phone_number \<Rightarrow>
     (case subscript data ''amount'' of
        Inl e \<Rightarrow> (Inl e, [], db)
      | Inr amount \<Rightarrow>
     (case subscript data ''packageName'' of
        Inl e \<Rightarrow> (Inl e, [], db)
      | Inr package_name \<Rightarrow>
     (case dict_get data ''username'' (PStr ''guest'') of
        Inl e \<Rightarrow> (Inl e, [], db)
      | Inr user_id \<Rightarrow>
     (case process_payment w phone_number amount package_name user_id of
        (Inl e, calls) \<Rightarrow> (Inl e, calls, db)
      | (Inr result, calls) \<Rightarrow>
     (case subscript result ''success'' of
        Inl e \<Rightarrow> (Inl e, calls, db)
      | Inr success \<Rightarrow>
          if truthy success then
            (case dict_get result ''checkout_request_id'' PNone of
               Inl e \<Rightarrow> (Inl e, calls, db)
             | Inr checkout \<Rightarrow>
            (case dict_get result ''customer_message'' PNone of
               Inl e \<Rightarrow> (Inl e, calls, db)
             | Inr message \<Rightarrow>
                 (Inr (PDict [(''success'', PBool True),
                              (''checkoutRequestID'', checkout),
                              (''customerMessage'', message),
                              (''message'', PStr ''STK push sent successfully'')], 200),
                  calls, db)))
          else
            (case dict_get result ''error'' (PStr ''Payment initiation failed'') of
               Inl e \<Rightarrow> (Inl e, calls, db)
             | Inr message \<Rightarrow> (Inr (PDict [(''error'', message)], 400), calls, db))))))))))"

text \<open>\<open>except Exception as e: return jsonify({'error': str(e)}), 500\<close>\<close>

definition error_500 :: "exn \<Rightarrow> response" where
  "error_500 e = (PDict [(''error'', PStr (str_exn e))], 500)"

definition initiate_payment ::
  "world \<Rightarrow> exn + pyval \<Rightarrow> database \<Rightarrow> response \<times> call list \<times> database" where
  "initiate_payment w body db =
     (case initiate_payment_attempt w body db of
        (Inl e, calls, db') \<Rightarrow> (error_500 e, calls, db')
      | (Inr r, calls, db') \<Rightarrow> (r, calls, db'))"

text \<open>
  \<open>mpesa_callback\<close>. Both branches on \<open>result_code == 0\<close> are \<open>pass\<close>: the calls to
  \<open>db.update_transaction_status\<close> and \<open>activate_user_package\<close> are comments. Besides
  the response the handler gives the \<open>activate_user_package\<close> invocations it has made,
  as (user id, package id), and the store.
\<close>

definition mpesa_callback_attempt ::
  "exn + pyval \<Rightarrow> database \<Rightarrow> (exn + response) \<times> (int \<times> int) list \<times> database" where
  "mpesa_callback_attempt body db =
     (case body of
        Inl e \<Rightarrow> (Inl e, [], db)
      | Inr data \<Rightarrow>
     (case dict_get data ''ResultCode'' PNone of
        Inl e \<Rightarrow> (Inl e, [], db)
      | Inr result_code \<Rightarrow>
     (case dict_get data ''CheckoutRequestID'' PNone of
        Inl e \<Rightarrow> (Inl e, [], db)
      | Inr checkout_request_id \<Rightarrow>
          (let (activations, db') = (if eq_zero result_code then ([], db) else ([], db))
           in (Inr (PDict [(''status'', PStr ''success'')], 200), activations, db')))))"

definition mpesa_callback ::
  "exn + pyval \<Rightarrow> database \<Rightarrow> response \<times> (int \<times> int) list \<times> database" where
  "mpesa_callback body db =
     (case mpesa_callback_attempt body db of
        (Inl e, activations, db') \<Rightarrow> (error_500 e, activations, db')
      | (Inr r, activations, db') \<Rightarrow> (r, activations, db'))"

text \<open>
  The router, as \<open>activate_user_package\<close> meets it: \<open>connection.get_api()\<close> and the
  \<open>update\<close> of \<open>/ip/hotspot/user\<close> each either raise (with a message) or succeed.
\<close>

record router =
  get_api_error :: "string option"
  update_error :: "string option"

datatype router_call =
    GetApi
  | UpdateHotspotUser pyval pyval pyval

text \<open>
  The \<open>try\<close> block of \<open>activate_user_package\<close>. The arguments of \<open>update\<close> are
  evaluated, in order, before the call is made.
\<close>

definition activate_attempt ::
  "router \<Rightarrow> int \<Rightarrow> database \<Rightarrow> int \<Rightarrow> int \<Rightarrow> (exn + unit) \<times> router_call list \<times> database" where
  "activate_attempt r now db user_id package_id =
     (case (get_package_by_id db package_id, get_user_by_id db user_id) of
        (Some package, Some user) \<Rightarrow>
          if \<not> truthy package \<or> \<not> truthy user
          then (Inl (Exception ''Package or user not found''), [], db)
          else
            (case get_api_error r of
               Some m \<Rightarrow> (Inl (LibraryError m), [GetApi], db)
             | None \<Rightarrow>
            (case subscript user ''username'' of
               Inl e \<Rightarrow> (Inl e, [GetApi], db)
             | Inr name \<Rightarrow>
            (case subscript package ''name'' of
               Inl e \<Rightarrow> (Inl e, [GetApi], db)
             | Inr profile \<Rightarrow>
            (case subscript package ''validity'' of
               Inl e \<Rightarrow> (Inl e, [GetApi], db)
             | Inr limit_uptime \<Rightarrow>
            (let calls = [GetApi, UpdateHotspotUser name profile limit_uptime]
             in case update_error r of
                  Some m \<Rightarrow> (Inl (LibraryError m), calls, db)
                | None \<Rightarrow>
                    (case assign_package_to_user now db user_id package_id of
                       Inl e \<Rightarrow> (Inl e, calls, db)
                     | Inr db' \<Rightarrow> (Inr (), calls, db')))))))
      | _ \<Rightarrow> (Inl (Exception ''Package or user not found''), [], db))"

definition activate_user_package ::
  "router \<Rightarrow> int \<Rightarrow> database \<Rightarrow> int \<Rightarrow> int \<Rightarrow> (exn + unit) \<times> router_call list \<times> database" where
  "activate_user_package r now db user_id package_id =
     (case activate_attempt r now db user_id package_id of
        (Inl e, calls, db') \<Rightarrow>
          (Inl (Exception (''Failed to activate package: '' @ str_exn e)), calls, db')
      | (Inr u, calls, db') \<Rightarrow> (Inr u, calls, db'))"

section \<open>Observations and runs\<close>

text \<open>The \<open>PhoneNumber\<close> and \<open>Amount\<close> of the first push request among the calls.\<close>

fun posted_field :: "string \<Rightarrow> call list \<Rightarrow> pyval option" where
  "posted_field k [] = None"
| "posted_field k (HttpPost url headers (PDict d) # calls) = map_of d k"
| "posted_field k (c # calls) = posted_field k calls"

text \<open>The account invariant of the store: package reference and expiry are null together.\<close>

definition account_inv :: "database \<Rightarrow> bool" where
  "account_inv db =
     list_all (\<lambda>u. (u_current_package_id u = None) = (u_package_expires_at u = None))
              (users db)"

text \<open>
  Every operation of the repository that can reach the store, and its effect on it. An
  operation that raises has committed nothing.
\<close>

datatype db_op =
    InitDatabase
  | CreateMacUser string string "string option"
  | CreateUser string string string "string option"
  | DeleteMacUser string
  | CreateTransaction int int rat string string "string option"
  | UpdateTransactionStatus int string
  | AssignPackageToUser int int
  | UpdateLastLogin int
  | ActivateUserPackage router int int
  | InitiatePayment world "exn + pyval"
  | MpesaCallback "exn + pyval"

fun apply_op :: "(string \<Rightarrow> string) \<Rightarrow> int \<Rightarrow> database \<Rightarrow> db_op \<Rightarrow> database" where
  "apply_op hash now db InitDatabase = init_database now db"
| "apply_op hash now db (CreateMacUser mac phone email) =
     (case create_mac_user now db mac phone email of Inl e \<Rightarrow> db | Inr (d, db') \<Rightarrow> db')"
| "apply_op hash now db (CreateUser name pw phone email) =
     (case create_user hash now db name pw phone email of Inl e \<Rightarrow> db | Inr (d, db') \<Rightarrow> db')"
| "apply_op hash now db (DeleteMacUser mac) =
     (case delete_mac_user db mac of Inl e \<Rightarrow> db | Inr db' \<Rightarrow> db')"
| "apply_op hash now db (CreateTransaction uid pid amount paid_by phone tid) =
     snd (create_transaction now db uid pid amount paid_by phone tid)"
| "apply_op hash now db (UpdateTransactionStatus tid status) =
     update_transaction_status now db tid status"
| "apply_op hash now db (AssignPackageToUser uid pid) =
     (case assign_package_to_user now db uid pid of Inl e \<Rightarrow> db | Inr db' \<Rightarrow> db')"
| "apply_op hash now db (UpdateLastLogin uid) = update_last_login now db uid"
| "apply_op hash now db (ActivateUserPackage r uid pid) =
     snd (snd (activate_user_package r now db uid pid))"
| "apply_op hash now db (InitiatePayment w body) = snd (snd (initiate_payment w body db))"
| "apply_op hash now db (MpesaCallback body) = snd (snd (mpesa_callback body db))"

text \<open>A run: operations in order, each at its own clock reading.\<close>

fun run_ops :: "(string \<Rightarrow> string) \<Rightarrow> (int \<times> db_op) list \<Rightarrow> database \<Rightarrow> database" where
  "run_ops hash [] db = db"
| "run_ops hash ((now, op) # rest) db = run_ops hash rest (apply_op hash now db op)"

section \<open>Example inputs\<close>

text \<open>A gateway that answers both requests with status 200.\<close>

definition example_world :: world where
  "example_world =
     \<lparr>oauth_reply = Reply 200 (Inr (PDict [(''access_token'', PStr ''tok'')])),
      stk_reply = Reply 200 (Inr (PDict [(''CheckoutRequestID'', PStr ''ws_CO_1''),
                                         (''CustomerMessage'', PStr ''Success'')])),
      clock_reference = ''20240101120000'',
      clock_timestamp = ''20240101120001'',
      clock_password = ''20240101120001'',
      sha256_hexdigest = (\<lambda>s. ''digest''),
      repr_value = (\<lambda>v. ''repr'')\<rparr>"

text \<open>A new database file with one MAC user registered at time 10.\<close>

definition example_db :: database where
  "example_db =
     apply_op (\<lambda>s. s) 10 (init_database 0 empty_database)
       (CreateMacUser ''AA:BB:CC:DD:EE:FF'' ''0712345678'' None)"

text \<open>
  The same with a transaction of user 1 for package 9 (\<open>2 Mbps\<close>, priced 500, 720 hours)
  recorded at time 20 under the gateway reference \<open>ws_CO_1\<close>, then completed at time 30.
\<close>

definition pending_db :: database where
  "pending_db =
     snd (create_transaction 20 example_db 1 9 500 ''mpesa'' ''254712345678''
            (Some ''ws_CO_1''))"

definition completed_db :: database where
  "completed_db = update_transaction_status 30 pending_db 1 ''completed''"

definition success_callback :: "exn + pyval" where
  "success_callback =
     Inr (PDict [(''ResultCode'', PInt 0), (''CheckoutRequestID'', PStr ''ws_CO_1'')])"


definition unreachable_router :: router where
  "unreachable_router = \<lparr>get_api_error = Some ''timed out'', update_error = None\<rparr>"

definition reachable_router :: router where
  "reachable_router = \<lparr>get_api_error = None, update_error = None\<rparr>"

section \<open>The payment entry point returns a result dictionary\<close>

lemma initiate_stk_push_shape:
  "\<exists>d. fst (initiate_stk_push w p a n r c) = Inr (PDict d) \<and>
     ((map_of d ''success'' = Some (PBool False) \<and> (\<exists>m. map_of d ''error'' = Some (PStr m))) \<or>
      (map_of d ''success'' = Some (PBool True) \<and>
       (\<exists>j cid. stk_reply w = Reply 200 (Inr j) \<and>
          dict_get j ''CheckoutRequestID'' PNone = Inr cid \<and>
          map_of d ''checkout_request_id'' = Some cid)))"
  unfolding initiate_stk_push_def stk_push_attempt_def failure_dict_def Let_def
  by (auto split: sum.splits reply.splits prod.splits if_splits)

text \<open>
  C10: \<open>process_payment\<close> and \<open>initiate_stk_push\<close> never let an exception out. For every
  input and every behaviour of the gateway the outcome is a returned dictionary with a
  boolean \<open>success\<close>: with \<open>False\<close> it carries an \<open>error\<close> string, with \<open>True\<close> it
  carries under \<open>checkout_request_id\<close> what the gateway's 200 response holds under
  \<open>CheckoutRequestID\<close>.
\<close>

theorem process_payment_total:
  "(\<exists>d. fst (process_payment w phone_number amount package_name user_id) = Inr (PDict d) \<and>
     ((map_of d ''success'' = Some (PBool False) \<and> (\<exists>m. map_of d ''error'' = Some (PStr m))) \<or>
      (map_of d ''success'' = Some (PBool True) \<and>
       (\<exists>j cid. stk_reply w = Reply 200 (Inr j) \<and>
          dict_get j ''CheckoutRequestID'' PNone = Inr cid \<and>
          map_of d ''checkout_request_id'' = Some cid)))) \<and>
   (\<exists>d. fst (initiate_stk_push w phone_number amount package_name reference url) = Inr (PDict d) \<and>
     ((map_of d ''success'' = Some (PBool False) \<and> (\<exists>m. map_of d ''error'' = Some (PStr m))) \<or>
      (map_of d ''success'' = Some (PBool True) \<and>
       (\<exists>j cid. stk_reply w = Reply 200 (Inr j) \<and>
          dict_get j ''CheckoutRequestID'' PNone = Inr cid \<and>
          map_of d ''checkout_request_id'' = Some cid))))"
proof
  show "\<exists>d. fst (process_payment w phone_number amount package_name user_id) = Inr (PDict d) \<and>
     ((map_of d ''success'' = Some (PBool False) \<and> (\<exists>m. map_of d ''error'' = Some (PStr m))) \<or>
      (map_of d ''success'' = Some (PBool True) \<and>
       (\<exists>j cid. stk_reply w = Reply 200 (Inr j) \<and>
          dict_get j ''CheckoutRequestID'' PNone = Inr cid \<and>
          map_of d ''checkout_request_id'' = Some cid)))"
  proof (cases "format_phone_number phone_number")
    case (Inl e)
    then show ?thesis
      by (simp add: process_payment_def failure_dict_def)
  next
    case (Inr phone)
    let ?ref = "''FortuNet-'' @ format_value w user_id @ ''-'' @ clock_reference w"
    obtain d where d: "fst (initiate_stk_push w phone amount package_name ?ref callback_url) = Inr (PDict d)"
      and shape: "(map_of d ''success'' = Some (PBool False) \<and> (\<exists>m. map_of d ''error'' = Some (PStr m))) \<or>
      (map_of d ''success'' = Some (PBool True) \<and>
       (\<exists>j cid. stk_reply w = Reply 200 (Inr j) \<and>
          dict_get j ''CheckoutRequestID'' PNone = Inr cid \<and>
          map_of d ''checkout_request_id'' = Some cid))"
      using initiate_stk_push_shape [of w phone amount package_name ?ref callback_url] by blast
    from d Inr have "fst (process_payment w phone_number amount package_name user_id) = Inr (PDict d)"
      by (cases "initiate_stk_push w phone amount package_name ?ref callback_url")
         (simp add: process_payment_def Let_def)
    with shape show ?thesis by blast
  qed
next
  show "\<exists>d. fst (initiate_stk_push w phone_number amount package_name reference url) = Inr (PDict d) \<and>
     ((map_of d ''success'' = Some (PBool False) \<and> (\<exists>m. map_of d ''error'' = Some (PStr m))) \<or>
      (map_of d ''success'' = Some (PBool True) \<and>
       (\<exists>j cid. stk_reply w = Reply 200 (Inr j) \<and>
          dict_get j ''CheckoutRequestID'' PNone = Inr cid \<and>
          map_of d ''checkout_request_id'' = Some cid)))"
    by (rule initiate_stk_push_shape)
qed

lemma ex_world_simps:
  "oauth_reply example_world = Reply 200 (Inr (PDict [(''access_token'', PStr ''tok'')]))"
  "stk_reply example_world = Reply 200 (Inr (PDict [(''CheckoutRequestID'', PStr ''ws_CO_1''),
                                         (''CustomerMessage'', PStr ''Success'')]))"
  by (simp_all add: example_world_def)

theorem process_payment_total_witness:
  "fst (process_payment example_world (PStr ''0712345678'') (PInt 500) (PStr ''2 Mbps'') (PStr ''guest''))
     = Inr (PDict [(''success'', PBool True),
         (''checkout_request_id'', PStr ''ws_CO_1''),
         (''merchant_request_id'', PNone), (''response_code'', PNone),
         (''response_description'', PNone),
         (''customer_message'', PStr ''Success'')]) \<and>
   fst (process_payment example_world (PInt 712345678) (PInt 500) (PStr ''2 Mbps'') (PStr ''guest''))
     = Inr (PDict [(''success'', PBool False),
         (''error'', PStr ([CHR 0x27] @ ''int'' @ [CHR 0x27] @ '' object has no attribute '' @ [CHR 0x27] @ ''startswith'' @ [CHR 0x27]))])"
  using process_payment_total [of example_world "PStr ''0712345678''" "PInt 500" "PStr ''2 Mbps''" "PStr ''guest''"]
  by (simp add: process_payment_def format_phone_number_def startswith_def initiate_stk_push_def
        stk_push_attempt_def get_access_token_def subscript_def dict_get_def ex_world_simps
        failure_dict_def no_attribute_def Let_def)

section \<open>Phone numbers\<close>

lemma process_payment_str_calls:
  assumes "get_access_token w = Inr token"
  shows "snd (process_payment w (PStr s) amount name user) =
           [HttpGet oauth_url,
            HttpPost stk_url (stk_headers w token)
              (stk_push_data w
                 (PStr (if startswith s ''0'' then ''254'' @ drop 1 s
                        else if startswith s ''+'' then drop 1 s else s))
                 amount name
                 (''FortuNet-'' @ format_value w user @ ''-'' @ clock_reference w)
                 callback_url)]"
  using assms
  unfolding process_payment_def format_phone_number_def initiate_stk_push_def
    stk_push_attempt_def Let_def
  by (auto split: sum.splits reply.splits prod.splits)

lemma posted_phone_stk:
  "posted_field ''PhoneNumber'' (HttpPost v h (stk_push_data w p a n r c) # calls) = Some p"
  by (simp add: stk_push_data_def)

lemma stk_push_attempt_first_call:
  "\<exists>calls. snd (stk_push_attempt w p a n r c) = HttpGet oauth_url # calls"
  unfolding stk_push_attempt_def Let_def
  by (simp split: sum.split reply.split)

lemma process_payment_first_call:
  "\<exists>calls. snd (process_payment w (PStr s) amount name user) = HttpGet oauth_url # calls"
proof -
  let ?phone = "PStr (if startswith s ''0'' then ''254'' @ drop 1 s
                      else if startswith s ''+'' then drop 1 s else s)"
  let ?ref = "''FortuNet-'' @ format_value w user @ ''-'' @ clock_reference w"
  obtain calls where
    "snd (stk_push_attempt w ?phone amount name ?ref callback_url) = HttpGet oauth_url # calls"
    using stk_push_attempt_first_call by blast
  then have "snd (process_payment w (PStr s) amount name user) = HttpGet oauth_url # calls"
    by (cases "stk_push_attempt w ?phone amount name ?ref callback_url")
       (auto simp: process_payment_def format_phone_number_def initiate_stk_push_def Let_def
             split: sum.split)
  then show ?thesis by blast
qed

lemma process_payment_no_token:
  assumes "get_access_token w = Inl e"
  shows "snd (process_payment w (PStr s) amount name user) = [HttpGet oauth_url]"
  using assms
  by (simp add: process_payment_def format_phone_number_def initiate_stk_push_def
        stk_push_attempt_def Let_def)

text \<open>
  C3, as the code has it. No string is rejected: for every phone number that is a string
  the first thing done is the gateway's token request. When the token is obtained, the
  push request carries a number with a leading \<open>0\<close> with the \<open>0\<close> replaced by \<open>254\<close>,
  a number with a leading \<open>+\<close> with the \<open>+\<close> dropped, and a string with any other
  prefix unchanged. When the token request fails, the token request is the only one made.
\<close>

theorem phone_number_sent_to_gateway:
  "(\<exists>calls. snd (process_payment w (PStr s) amount name user) = HttpGet oauth_url # calls) \<and>
   (get_access_token w = Inr token \<longrightarrow>
      posted_field ''PhoneNumber''
        (snd (process_payment w (PStr (CHR ''0'' # rest)) amount name user))
        = Some (PStr (''254'' @ rest)) \<and>
      posted_field ''PhoneNumber''
        (snd (process_payment w (PStr (CHR ''+'' # rest)) amount name user))
        = Some (PStr rest) \<and>
      (\<not> startswith s ''0'' \<and> \<not> startswith s ''+'' \<longrightarrow>
         posted_field ''PhoneNumber'' (snd (process_payment w (PStr s) amount name user))
         = Some (PStr s))) \<and>
   (get_access_token w = Inl e \<longrightarrow>
      snd (process_payment w (PStr s) amount name user) = [HttpGet oauth_url])"
proof (intro conjI impI)
  show "\<exists>calls. snd (process_payment w (PStr s) amount name user) = HttpGet oauth_url # calls"
    by (rule process_payment_first_call)
next
  assume token: "get_access_token w = Inr token"
  show "posted_field ''PhoneNumber''
          (snd (process_payment w (PStr (CHR ''0'' # rest)) amount name user))
          = Some (PStr (''254'' @ rest))"
    by (simp add: process_payment_str_calls [OF token] posted_phone_stk startswith_def)
  show "posted_field ''PhoneNumber''
          (snd (process_payment w (PStr (CHR ''+'' # rest)) amount name user))
          = Some (PStr rest)"
    by (simp add: process_payment_str_calls [OF token] posted_phone_stk startswith_def)
  assume "\<not> startswith s ''0'' \<and> \<not> startswith s ''+''"
  then show "posted_field ''PhoneNumber'' (snd (process_payment w (PStr s) amount name user))
               = Some (PStr s)"
    by (simp add: process_payment_str_calls [OF token] posted_phone_stk)
next
  assume "get_access_token w = Inl e"
  then show "snd (process_payment w (PStr s) amount name user) = [HttpGet oauth_url]"
    by (rule process_payment_no_token)
qed

lemma example_token: "get_access_token example_world = Inr (PStr ''tok'')"
  by (simp add: get_access_token_def example_world_def subscript_def)

text \<open>
  The two numbers of the specification, and an already international one, at a gateway
  that answers.
\<close>

theorem phone_number_sent_to_gateway_witness:
  "get_access_token example_world = Inr (PStr ''tok'') \<and>
   posted_field ''PhoneNumber''
     (snd (process_payment example_world (PStr ''0712345678'') (PInt 500) (PStr ''2 Mbps'')
             (PStr ''guest''))) = Some (PStr ''254712345678'') \<and>
   posted_field ''PhoneNumber''
     (snd (process_payment example_world (PStr ''+254712345678'') (PInt 500) (PStr ''2 Mbps'')
             (PStr ''guest''))) = Some (PStr ''254712345678'') \<and>
   posted_field ''PhoneNumber''
     (snd (process_payment example_world (PStr ''254712345678'') (PInt 500) (PStr ''2 Mbps'')
             (PStr ''guest''))) = Some (PStr ''254712345678'')"
  using phone_number_sent_to_gateway [where w = example_world and token = "PStr ''tok''"
          and rest = "''712345678''" and amount = "PInt 500" and name = "PStr ''2 Mbps''"
          and user = "PStr ''guest''" and s = "''254712345678''"]
        phone_number_sent_to_gateway [where w = example_world and token = "PStr ''tok''"
          and rest = "''254712345678''" and amount = "PInt 500" and name = "PStr ''2 Mbps''"
          and user = "PStr ''guest''" and s = "''254712345678''"]
  by (simp add: example_token startswith_def)

text \<open>
  C3 as stated fails: \<open>712345678\<close> starts with neither \<open>0\<close> nor \<open>+\<close>, and the payment
  succeeds after two gateway requests that carry the number as it was given.
\<close>

theorem other_prefix_not_rejected:
  "fst (process_payment example_world (PStr ''712345678'') (PInt 500) (PStr ''2 Mbps'')
          (PStr ''guest''))
     = Inr (PDict [(''success'', PBool True),
                   (''checkout_request_id'', PStr ''ws_CO_1''),
                   (''merchant_request_id'', PNone),
                   (''response_code'', PNone),
                   (''response_description'', PNone),
                   (''customer_message'', PStr ''Success'')]) \<and>
   length (snd (process_payment example_world (PStr ''712345678'') (PInt 500) (PStr ''2 Mbps'')
                  (PStr ''guest''))) = 2 \<and>
   posted_field ''PhoneNumber''
     (snd (process_payment example_world (PStr ''712345678'') (PInt 500) (PStr ''2 Mbps'')
             (PStr ''guest''))) = Some (PStr ''712345678'')"
  by (simp add: process_payment_def format_phone_number_def startswith_def initiate_stk_push_def
        stk_push_attempt_def example_token dict_get_def ex_world_simps stk_push_data_def
        Let_def)

section \<open>The callback handler\<close>

lemma mpesa_callback_store: "snd (snd (mpesa_callback body db)) = db"
  unfolding mpesa_callback_def mpesa_callback_attempt_def
  by (auto split: sum.splits prod.splits)

lemma mpesa_callback_no_activation: "fst (snd (mpesa_callback body db)) = []"
  unfolding mpesa_callback_def mpesa_callback_attempt_def
  by (auto split: sum.splits prod.splits)

lemma mpesa_callback_dict:
  "fst (mpesa_callback (Inr (PDict d)) db) = (PDict [(''status'', PStr ''success'')], 200)"
  unfolding mpesa_callback_def mpesa_callback_attempt_def dict_get_def
  by (auto split: option.splits)

lemma mpesa_callback_not_dict:
  assumes "\<not> (\<exists>d. body = Inr (PDict d))"
  shows "\<exists>e. fst (mpesa_callback body db) = error_500 e"
proof (cases body)
  case (Inl e)
  then have "fst (mpesa_callback body db) = error_500 e"
    by (simp add: mpesa_callback_def mpesa_callback_attempt_def)
  then show ?thesis by blast
next
  case (Inr data)
  with assms have "dict_get data ''ResultCode'' PNone = Inl (no_attribute data ''get'')"
    by (cases data) (simp_all add: dict_get_def)
  with Inr have "fst (mpesa_callback body db) = error_500 (no_attribute data ''get'')"
    by (simp add: mpesa_callback_def mpesa_callback_attempt_def)
  then show ?thesis by blast
qed

text \<open>
  C7, as the code has it: the handler answers \<open>{'status': 'success'}\<close> with status 200
  exactly when the body parses to a JSON object, whatever the object holds; for every other
  request (a body Flask cannot parse, or JSON that is not an object) it answers status 500
  with \<open>{'error': message}\<close>.
\<close>

theorem mpesa_callback_acknowledges_json_objects:
  "(fst (mpesa_callback body db) = (PDict [(''status'', PStr ''success'')], 200))
     = (\<exists>d. body = Inr (PDict d)) \<and>
   (\<exists>m. fst (mpesa_callback body db) = (PDict [(''error'', PStr m)], 500))
     = (\<not> (\<exists>d. body = Inr (PDict d)))"
proof (cases "\<exists>d. body = Inr (PDict d)")
  case True
  then show ?thesis using mpesa_callback_dict by auto
next
  case False
  then obtain e where "fst (mpesa_callback body db) = error_500 e"
    using mpesa_callback_not_dict by blast
  with False show ?thesis by (simp add: error_500_def)
qed

text \<open>
  A callback with result code 0 is acknowledged; the JSON string \<open>"paid"\<close> is not.
\<close>

theorem mpesa_callback_acknowledges_json_objects_witness:
  "fst (mpesa_callback success_callback pending_db)
     = (PDict [(''status'', PStr ''success'')], 200) \<and>
   (\<exists>m. fst (mpesa_callback (Inr (PStr ''paid'')) pending_db)
          = (PDict [(''error'', PStr m)], 500))"
  using mpesa_callback_acknowledges_json_objects [of success_callback pending_db]
        mpesa_callback_acknowledges_json_objects [of "Inr (PStr ''paid'')" pending_db]
  by (simp add: success_callback_def)

text \<open>
  C7 as stated fails: a body that cannot be parsed, and the JSON array \<open>[]\<close>, are both
  answered with status 500 and an error message.
\<close>

theorem mpesa_callback_malformed_body_500:
  "fst (mpesa_callback (Inl (LibraryError ''400 Bad Request'')) pending_db)
     = (PDict [(''error'', PStr ''400 Bad Request'')], 500) \<and>
   snd (fst (mpesa_callback (Inr (PList [])) pending_db)) = 500"
  by (simp add: mpesa_callback_def mpesa_callback_attempt_def error_500_def dict_get_def)

lemma example_db_tables:
  "users example_db =
     [\<lparr>u_id = 1, u_username = None, u_password = None,
       u_phone_number = ''0712345678'', u_email = None,
       u_mac_address = Some ''AA:BB:CC:DD:EE:FF'', u_created_at = 10,
       u_last_login = None, u_is_active = True, u_mikrotik_user_id = None,
       u_current_package_id = None, u_package_expires_at = None\<rparr>]"
  "transactions example_db = []"
  "transaction_seq example_db = 0"
  "length (packages example_db) = 12"
  by (simp_all add: example_db_def init_database_def insert_default_packages_def
        empty_database_def all_packages_def create_mac_user_def Let_def)

lemma pending_db_transactions:
  "transactions pending_db =
     [\<lparr>t_id = 1, t_user_id = 1, t_package_id = 9, t_amount = 500, t_payment_method = ''mpesa'',
       t_transaction_id = Some ''ws_CO_1'', t_status = ''pending'',
       t_phone_number = ''254712345678'', t_created_at = 20, t_completed_at = None\<rparr>]"
  by (simp add: pending_db_def create_transaction_def Let_def example_db_tables)

text \<open>
  C1 at its failing input: the store holds one pending transaction under the gateway
  reference \<open>ws_CO_1\<close>. The callback with result code 0 for that reference is
  acknowledged, makes no \<open>activate_user_package\<close> call and returns the store as it was,
  the transaction still pending; the callback with result code 1 does the same, the
  transaction not failed.
\<close>

theorem mpesa_callback_success_code_changes_nothing:
  "map t_status (transactions pending_db) = [''pending''] \<and>
   map t_transaction_id (transactions pending_db) = [Some ''ws_CO_1''] \<and>
   mpesa_callback success_callback pending_db
     = ((PDict [(''status'', PStr ''success'')], 200), [], pending_db) \<and>
   mpesa_callback
       (Inr (PDict [(''ResultCode'', PInt 1), (''CheckoutRequestID'', PStr ''ws_CO_1'')]))
       pending_db
     = ((PDict [(''status'', PStr ''success'')], 200), [], pending_db)"
  by (simp add: pending_db_transactions mpesa_callback_def mpesa_callback_attempt_def
        success_callback_def dict_get_def)

section \<open>Transaction status\<close>

text \<open>
  C4, as the code has it: \<open>update_transaction_status\<close> is unguarded. It writes the status
  it is given into every row with the given id, whatever status the row had, and sets
  \<open>completed_at\<close> to the clock when the new status is \<open>completed\<close> and to NULL otherwise.
  Rows with another id are left as they are, each in its place, and the other tables are
  not written.
\<close>

theorem status_overwritten_on_request:
  "map t_status (transactions (update_transaction_status now db tid status))
     = map (\<lambda>t. if t_id t = tid then status else t_status t) (transactions db) \<and>
   map t_completed_at (transactions (update_transaction_status now db tid status))
     = map (\<lambda>t. if t_id t = tid then (if status = ''completed'' then Some now else None)
                else t_completed_at t) (transactions db) \<and>
   map (\<lambda>t. if t_id t = tid then None else Some t)
       (transactions (update_transaction_status now db tid status))
     = map (\<lambda>t. if t_id t = tid then None else Some t) (transactions db) \<and>
   users (update_transaction_status now db tid status) = users db \<and>
   packages (update_transaction_status now db tid status) = packages db"
  by (simp add: update_transaction_status_def Let_def)

lemma completed_db_transactions:
  "transactions completed_db =
     [\<lparr>t_id = 1, t_user_id = 1, t_package_id = 9, t_amount = 500, t_payment_method = ''mpesa'',
       t_transaction_id = Some ''ws_CO_1'', t_status = ''completed'',
       t_phone_number = ''254712345678'', t_created_at = 20, t_completed_at = Some 30\<rparr>]"
  by (simp add: completed_db_def update_transaction_status_def pending_db_transactions)

text \<open>
  Completing the pending transaction at time 30, and an update for an id no row has.
\<close>

theorem status_overwritten_on_request_witness:
  "map t_status (transactions (update_transaction_status 30 pending_db 1 ''completed''))
     = [''completed''] \<and>
   map t_completed_at (transactions (update_transaction_status 30 pending_db 1 ''completed''))
     = [Some 30] \<and>
   transactions (update_transaction_status 30 pending_db 2 ''completed'')
     = transactions pending_db"
proof -
  have "map (\<lambda>t. if t_id t = 2 then None else Some t)
          (transactions (update_transaction_status 30 pending_db 2 ''completed''))
        = map (\<lambda>t. if t_id t = 2 then None else Some t) (transactions pending_db)"
    using status_overwritten_on_request [of 30 pending_db 2 "''completed''"] by blast
  then have "transactions (update_transaction_status 30 pending_db 2 ''completed'')
               = transactions pending_db"
    by (simp add: update_transaction_status_def pending_db_transactions)
  then show ?thesis
    using status_overwritten_on_request [of 30 pending_db 1 "''completed''"]
    by (simp add: pending_db_transactions)
qed

text \<open>
  C4 as stated fails: a status update turns the completed transaction into a failed one
  and clears its completion time.
\<close>

theorem completed_transaction_becomes_failed:
  "map t_status (transactions completed_db) = [''completed''] \<and>
   map t_status (transactions (update_transaction_status 40 completed_db 1 ''failed''))
     = [''failed''] \<and>
   map t_completed_at (transactions (update_transaction_status 40 completed_db 1 ''failed''))
     = [None]"
  by (simp add: completed_db_transactions update_transaction_status_def)

section \<open>Initiation\<close>

lemma posted_amount_stk:
  "posted_field ''Amount'' (HttpPost v h (stk_push_data w p a n r c) # calls) = Some a"
  by (simp add: stk_push_data_def)

lemma stk_push_attempt_cases:
  "(\<exists>e calls. stk_push_attempt w p a n r c = (Inl e, calls)) \<or>
   (\<exists>d h. stk_push_attempt w p a n r c
            = (Inr (PDict ((''success'', PBool True) # d)),
               [HttpGet oauth_url, HttpPost stk_url h (stk_push_data w p a n r c)]))"
  unfolding stk_push_attempt_def Let_def
  by (simp split: sum.split reply.split)

lemma initiate_stk_push_cases:
  "(\<exists>e calls. initiate_stk_push w p a n r c = (Inr (failure_dict e), calls)) \<or>
   (\<exists>d h. initiate_stk_push w p a n r c
            = (Inr (PDict ((''success'', PBool True) # d)),
               [HttpGet oauth_url, HttpPost stk_url h (stk_push_data w p a n r c)]))"
  using stk_push_attempt_cases [of w p a n r c]
  by (auto simp: initiate_stk_push_def)

lemma process_payment_cases:
  "(\<exists>e calls. process_payment w p a n u = (Inr (failure_dict e), calls)) \<or>
   (\<exists>d h ph r c. process_payment w p a n u
            = (Inr (PDict ((''success'', PBool True) # d)),
               [HttpGet oauth_url, HttpPost stk_url h (stk_push_data w ph a n r c)]))"
proof (cases "format_phone_number p")
  case (Inl e)
  then have "process_payment w p a n u = (Inr (failure_dict e), [])"
    by (simp add: process_payment_def)
  then show ?thesis by blast
next
  case (Inr phone)
  let ?r = "''FortuNet-'' @ format_value w u @ ''-'' @ clock_reference w"
  from initiate_stk_push_cases [of w phone a n ?r callback_url]
  show ?thesis
  proof
    assume "\<exists>e calls. initiate_stk_push w phone a n ?r callback_url = (Inr (failure_dict e), calls)"
    with Inr show ?thesis by (auto simp: process_payment_def Let_def)
  next
    assume "\<exists>d h. initiate_stk_push w phone a n ?r callback_url
            = (Inr (PDict ((''success'', PBool True) # d)),
               [HttpGet oauth_url, HttpPost stk_url h (stk_push_data w phone a n ?r callback_url)])"
    then obtain d h where "initiate_stk_push w phone a n ?r callback_url
            = (Inr (PDict ((''success'', PBool True) # d)),
               [HttpGet oauth_url, HttpPost stk_url h (stk_push_data w phone a n ?r callback_url)])"
      by blast
    with Inr have "process_payment w p a n u
            = (Inr (PDict ((''success'', PBool True) # d)),
               [HttpGet oauth_url, HttpPost stk_url h (stk_push_data w phone a n ?r callback_url)])"
      by (simp add: process_payment_def Let_def)
    then show ?thesis by blast
  qed
qed

lemma process_payment_success_amount:
  assumes "process_payment w p a n u = (Inr r, calls)"
    and "subscript r ''success'' = Inr v"
    and "truthy v"
  shows "posted_field ''Amount'' calls = Some a"
  using process_payment_cases [of w p a n u] assms
  by (auto simp: failure_dict_def subscript_def posted_amount_stk)




lemma initiate_payment_attempt_form:
  "\<exists>r calls. initiate_payment_attempt w body db = (r, calls, db) \<and>
     (\<forall>db2. initiate_payment_attempt w body db2 = (r, calls, db2)) \<and>
     (\<forall>b. r = Inr (b, 200) \<longrightarrow>
        (\<exists>data amount. body = Inr data \<and> subscript data ''amount'' = Inr amount \<and>
           posted_field ''Amount'' calls = Some amount))"
proof (cases body)
  case (Inl e)
  then show ?thesis by (simp add: initiate_payment_attempt_def)
next
  case body: (Inr data)
  show ?thesis
  proof (cases "missing_field required_fields data")
    case (Inl e)
    with body show ?thesis by (simp add: initiate_payment_attempt_def)
  next
    case missing: (Inr m)
    show ?thesis
    proof (cases m)
      case (Some field)
      with body missing show ?thesis by (simp add: initiate_payment_attempt_def)
    next
      case None
      note none = None
      show ?thesis
      proof (cases "subscript data ''phoneNumber''")
        case (Inl e)
        with body missing none show ?thesis by (simp add: initiate_payment_attempt_def)
      next
        case phone: (Inr phone_number)
        show ?thesis
        proof (cases "subscript data ''amount''")
          case (Inl e)
          with body missing none phone show ?thesis
            by (simp add: initiate_payment_attempt_def)
        next
          case amount: (Inr amount)
          show ?thesis
          proof (cases "subscript data ''packageName''")
            case (Inl e)
            with body missing none phone amount show ?thesis
              by (simp add: initiate_payment_attempt_def)
          next
            case name: (Inr package_name)
            show ?thesis
            proof (cases "dict_get data ''username'' (PStr ''guest'')")
              case (Inl e)
              with body missing none phone amount name show ?thesis
                by (simp add: initiate_payment_attempt_def)
            next
              case user: (Inr user_id)
              obtain res calls where
                pp: "process_payment w phone_number amount package_name user_id = (res, calls)"
                by (cases "process_payment w phone_number amount package_name user_id")
              show ?thesis
              proof (cases res)
                case (Inl e)
                with body missing none phone amount name user pp show ?thesis
                  by (simp add: initiate_payment_attempt_def)
              next
                case (Inr result)
                with body missing none phone amount name user pp show ?thesis
                  by (auto simp: initiate_payment_attempt_def
                           split: sum.split dest: process_payment_success_amount)
              qed
            qed
          qed
        qed
      qed
    qed
  qed
qed


lemma initiate_payment_form:
  "\<exists>r calls. initiate_payment w body db = (r, calls, db) \<and>
     (\<forall>db2. initiate_payment w body db2 = (r, calls, db2)) \<and>
     (snd r = 200 \<longrightarrow>
        (\<exists>data amount. body = Inr data \<and> subscript data ''amount'' = Inr amount \<and>
           posted_field ''Amount'' calls = Some amount))"
proof -
  obtain r calls where
    attempt: "\<forall>db2. initiate_payment_attempt w body db2 = (r, calls, db2)"
    and ok: "\<forall>b. r = Inr (b, 200) \<longrightarrow>
        (\<exists>data amount. body = Inr data \<and> subscript data ''amount'' = Inr amount \<and>
           posted_field ''Amount'' calls = Some amount)"
    using initiate_payment_attempt_form [of w body db] by blast
  show ?thesis
  proof (cases r)
    case (Inl e)
    with attempt show ?thesis by (simp add: initiate_payment_def error_500_def)
  next
    case (Inr resp)
    with attempt ok show ?thesis by (cases resp) (simp add: initiate_payment_def)
  qed
qed




lemma example_db_packages:
  "get_package_by_id example_db 9
     = Some (PDict [(''id'', PInt 9), (''name'', PStr ''2 Mbps''),
                    (''description'', PStr ''2 Mbps unlimited for 30 days''),
                    (''price'', PInt 500), (''duration_hours'', PInt 720),
                    (''data_limit_gb'', PNone), (''speed_limit_mbps'', PInt 2),
                    (''package_type'', PStr ''monthly'')])"
  "get_package_by_id example_db 999 = None"
  by (simp_all add: get_package_by_id_def package_dict_def numeric_value_def opt_str_def
        opt_int_def example_db_def init_database_def insert_default_packages_def
        empty_database_def all_packages_def create_mac_user_def Let_def)





section \<open>Activation\<close>

lemma package_dict_lookups:
  "truthy (package_dict p)"
  "subscript (package_dict p) ''duration_hours'' = Inr (PInt (p_duration_hours p))"
  "subscript (package_dict p) ''name'' = Inr (PStr (p_name p))"
  "subscript (package_dict p) ''validity'' = Inl (KeyError ''validity'')"
  by (simp_all add: package_dict_def subscript_def)

lemma user_dict_lookups:
  "truthy (user_dict u)"
  "subscript (user_dict u) ''username'' = Inr (opt_str (u_username u))"
  by (simp_all add: user_dict_def subscript_def)

lemma activate_attempt_router_failure:
  assumes "get_api_error r \<noteq> None \<or> update_error r \<noteq> None"
  shows "\<exists>e calls. activate_attempt r now db user_id package_id = (Inl e, calls, db)"
proof (cases "get_package_by_id db package_id")
  case None
  then show ?thesis by (simp add: activate_attempt_def)
next
  case package: (Some package)
  show ?thesis
  proof (cases "get_user_by_id db user_id")
    case None
    with package show ?thesis by (simp add: activate_attempt_def)
  next
    case user: (Some user)
    show ?thesis
    proof (cases "\<not> truthy package \<or> \<not> truthy user")
      case True
      with package user show ?thesis by (auto simp: activate_attempt_def)
    next
      case found: False
      show ?thesis
      proof (cases "get_api_error r")
        case (Some m)
        with package user found show ?thesis by (simp add: activate_attempt_def)
      next
        case api: None
        with assms obtain m where update: "update_error r = Some m" by auto
        from package user found api update show ?thesis
          by (simp add: activate_attempt_def Let_def split: sum.split)
      qed
    qed
  qed
qed

text \<open>
  C5: when the router call fails, whether \<open>get_api\<close> or the \<open>update\<close> raises,
  \<open>activate_user_package\<close> raises and the store after the call is the store before it;
  in particular the account's row, with its package reference and expiry, is the same.
\<close>

theorem router_failure_leaves_account:
  assumes "get_api_error r \<noteq> None \<or> update_error r \<noteq> None"
  shows "snd (snd (activate_user_package r now db user_id package_id)) = db \<and>
         (\<exists>e. fst (activate_user_package r now db user_id package_id) = Inl e) \<and>
         get_user_by_id (snd (snd (activate_user_package r now db user_id package_id))) user_id
           = get_user_by_id db user_id"
proof -
  from activate_attempt_router_failure [OF assms]
  obtain e calls where "activate_attempt r now db user_id package_id = (Inl e, calls, db)"
    by blast
  then show ?thesis by (simp add: activate_user_package_def)
qed

lemma example_db_user:
  "get_user_by_id example_db 1
     = Some (PDict [(''id'', PInt 1), (''username'', PNone), (''password'', PNone),
                    (''phone_number'', PStr ''0712345678''), (''email'', PNone),
                    (''mac_address'', PStr ''AA:BB:CC:DD:EE:FF''), (''created_at'', PInt 10),
                    (''last_login'', PNone), (''is_active'', PInt 1),
                    (''current_package_id'', PNone), (''package_expires_at'', PNone)])"
  by (simp add: get_user_by_id_def example_db_tables user_dict_def opt_str_def opt_int_def)

text \<open>The router cannot be reached while user 1 is activated for package 9.\<close>

theorem router_failure_leaves_account_witness:
  "get_api_error unreachable_router = Some ''timed out'' \<and>
   activate_user_package unreachable_router 40 example_db 1 9
     = (Inl (Exception ''Failed to activate package: timed out''), [GetApi], example_db)"
proof -
  have failing: "get_api_error unreachable_router \<noteq> None \<or> update_error unreachable_router \<noteq> None"
    by (simp add: unreachable_router_def)
  from router_failure_leaves_account [OF failing, of 40 example_db 1 9]
  have "snd (snd (activate_user_package unreachable_router 40 example_db 1 9)) = example_db"
    by simp
  moreover have "fst (activate_user_package unreachable_router 40 example_db 1 9)
                   = Inl (Exception ''Failed to activate package: timed out'')"
    and "fst (snd (activate_user_package unreachable_router 40 example_db 1 9)) = [GetApi]"
    by (simp_all add: activate_user_package_def activate_attempt_def example_db_packages
          example_db_user unreachable_router_def)
  ultimately show ?thesis by (simp add: prod_eq_iff unreachable_router_def)
qed

text \<open>
  With a router that answers, the activation of an existing user for an existing package
  stops at \<open>package['validity']\<close>: the dictionary of a package row has no such key. The
  \<open>update\<close> is not sent and the store is not written.
\<close>

lemma activate_user_package_validity:
  assumes "find (\<lambda>p. p_id p = package_id \<and> p_is_active p) (packages db) = Some p"
    and "find (\<lambda>u. u_id u = user_id) (users db) = Some u"
    and "get_api_error r = None"
  shows "activate_user_package r now db user_id package_id
           = (Inl (Exception (''Failed to activate package: '' @ str_exn (KeyError ''validity''))),
              [GetApi], db)"
  using assms
  by (simp add: activate_user_package_def activate_attempt_def get_package_by_id_def
        get_user_by_id_def package_dict_lookups user_dict_lookups)

section \<open>Package assignment\<close>

lemma find_assigned:
  "find (\<lambda>u. u_id u = user_id)
     (map (\<lambda>u. if u_id u = user_id
               then u\<lparr>u_current_package_id := a, u_package_expires_at := b\<rparr> else u) us)
   = map_option (\<lambda>u. u\<lparr>u_current_package_id := a, u_package_expires_at := b\<rparr>)
       (find (\<lambda>u. u_id u = user_id) us)"
  by (induction us) simp_all

lemma find_package_id:
  "find (\<lambda>p. p_id p = package_id \<and> p_is_active p) ps = Some p \<Longrightarrow> p_id p = package_id"
  by (induction ps) (auto split: if_splits)

lemma assign_package_to_user_found:
  assumes "find (\<lambda>p. p_id p = package_id \<and> p_is_active p) (packages db) = Some p"
    and "timedelta_hours (p_duration_hours p) = Inr delta"
    and "datetime_add now delta = Inr expires_at"
  shows "assign_package_to_user now db user_id package_id
           = Inr (db\<lparr>users :=
                      map (\<lambda>u. if u_id u = user_id
                               then u\<lparr>u_current_package_id := Some package_id,
                                      u_package_expires_at := Some expires_at\<rparr>
                               else u)
                          (users db)\<rparr>)"
  using assms
  by (simp add: assign_package_to_user_def get_package_by_id_def package_dict_lookups)

lemma expiry_in_range:
  assumes "timedelta_hours hours = Inr delta" and "datetime_add now delta = Inr expires_at"
  shows "expires_at = now + 3600 * hours"
  using assms
  by (auto simp: timedelta_hours_def datetime_add_def Let_def split: if_splits)

text \<open>
  What \<open>assign_package_to_user\<close> does for an active package and an existing account when
  the expiry is a date Python can hold: the account gets the package id and the expiry
  \<open>now\<close> plus \<open>duration_hours\<close> hours, its other columns as they were.
\<close>

lemma assign_package_to_user_expiry:
  assumes "find (\<lambda>p. p_id p = package_id \<and> p_is_active p) (packages db) = Some p"
    and "find (\<lambda>u. u_id u = user_id) (users db) = Some u"
    and "timedelta_hours (p_duration_hours p) = Inr delta"
    and "datetime_add now delta = Inr expires_at"
  shows "\<exists>db'. assign_package_to_user now db user_id package_id = Inr db' \<and>
           p_id p = package_id \<and>
           find (\<lambda>u. u_id u = user_id) (users db')
             = Some (u\<lparr>u_current_package_id := Some (p_id p),
                       u_package_expires_at := Some (now + 3600 * p_duration_hours p)\<rparr>)"
  using assms(2) find_package_id [OF assms(1)] expiry_in_range [OF assms(3) assms(4)]
  by (simp add: assign_package_to_user_found [OF assms(1) assms(3) assms(4)] find_assigned)

lemma example_db_finds:
  "find (\<lambda>p. p_id p = 9 \<and> p_is_active p) (packages example_db)
     = Some \<lparr>p_id = 9, p_name = ''2 Mbps'',
             p_description = Some ''2 Mbps unlimited for 30 days'', p_price = 500,
             p_duration_hours = 720, p_data_limit_gb = None, p_speed_limit_mbps = Some 2,
             p_package_type = ''monthly'', p_is_active = True, p_created_at = 0\<rparr>"
  "find (\<lambda>u. u_id u = 1) (users example_db)
     = Some \<lparr>u_id = 1, u_username = None, u_password = None,
             u_phone_number = ''0712345678'', u_email = None,
             u_mac_address = Some ''AA:BB:CC:DD:EE:FF'', u_created_at = 10,
             u_last_login = None, u_is_active = True, u_mikrotik_user_id = None,
             u_current_package_id = None, u_package_expires_at = None\<rparr>"
  by (simp_all add: example_db_def init_database_def insert_default_packages_def
        empty_database_def all_packages_def create_mac_user_def Let_def)

lemma example_expiry:
  "timedelta_hours 720 = Inr 2592000"
  "datetime_add 40 2592000 = Inr 2592040"
  by (simp_all add: timedelta_hours_def datetime_add_def datetime_min_def datetime_max_def
        Let_def)

lemma example_assign:
  "assign_package_to_user 40 example_db 1 9
     = Inr (example_db\<lparr>users :=
              map (\<lambda>u. if u_id u = 1
                       then u\<lparr>u_current_package_id := Some 9,
                              u_package_expires_at := Some 2592040\<rparr>
                       else u)
                  (users example_db)\<rparr>)"
  by (rule assign_package_to_user_found [OF example_db_finds(1), where delta = 2592000])
     (simp_all add: example_expiry)

text \<open>
  C6 at its failing input: user 1 exists with no package, package 9 is active with 720
  hours, and the router accepts every call. \<open>activate_user_package\<close> at time 40 raises
  \<open>Failed to activate package: 'validity'\<close> after \<open>get_api\<close> alone: the update is not
  sent to the router and the store comes back as it was, the account with neither package
  nor expiry. The store's own \<open>assign_package_to_user\<close>, which the activation never
  reaches, would have set package 9 and the expiry \<open>40 + 3600 * 720 = 2592040\<close>.
\<close>

theorem activation_stops_at_validity:
  "get_api_error reachable_router = None \<and> update_error reachable_router = None \<and>
   activate_user_package reachable_router 40 example_db 1 9
     = (Inl (Exception (''Failed to activate package: '' @ [CHR 0x27] @ ''validity''
                        @ [CHR 0x27])),
        [GetApi], example_db) \<and>
   map (\<lambda>u. (u_current_package_id u, u_package_expires_at u)) (users example_db)
     = [(None, None)] \<and>
   map_sum id (\<lambda>db'. map (\<lambda>u. (u_current_package_id u, u_package_expires_at u)) (users db'))
     (assign_package_to_user 40 example_db 1 9)
     = Inr [(Some 9, Some 2592040)]"
proof -
  have router: "get_api_error reachable_router = None" "update_error reachable_router = None"
    by (simp_all add: reachable_router_def)
  have "activate_user_package reachable_router 40 example_db 1 9
     = (Inl (Exception (''Failed to activate package: '' @ [CHR 0x27] @ ''validity''
                        @ [CHR 0x27])),
        [GetApi], example_db)"
    using activate_user_package_validity
            [OF example_db_finds(1) example_db_finds(2) router(1), of 40]
    by simp
  moreover have "map_sum id
       (\<lambda>db'. map (\<lambda>u. (u_current_package_id u, u_package_expires_at u)) (users db'))
       (assign_package_to_user 40 example_db 1 9)
     = Inr [(Some 9, Some 2592040)]"
    by (simp add: example_assign example_db_tables)
  ultimately show ?thesis using router by (simp add: example_db_tables)
qed

section \<open>The account invariant\<close>

lemma list_all_map_if:
  assumes "list_all P xs" and "\<And>x. P x \<Longrightarrow> c x \<Longrightarrow> P (f x)"
  shows "list_all P (map (\<lambda>x. if c x then f x else x) xs)"
  using assms by (induction xs) auto

lemma list_all_map_cases:
  assumes "\<And>x. c x \<Longrightarrow> Q (f x)" and "\<And>x. \<not> c x \<Longrightarrow> Q x"
  shows "list_all Q (map (\<lambda>x. if c x then f x else x) xs)"
  using assms by (induction xs) auto

lemma insert_packages_users: "users (insert_packages now ps db) = users db"
  by (induction now ps db rule: insert_packages.induct) simp_all

lemma init_database_users: "users (init_database now db) = users db"
  by (simp add: init_database_def insert_default_packages_def insert_packages_users)

lemma account_inv_append:
  "account_inv (db\<lparr>users := users db @ [u], user_seq := n\<rparr>)
     = (account_inv db \<and> (u_current_package_id u = None) = (u_package_expires_at u = None))"
  by (simp add: account_inv_def)

lemma create_mac_user_inv:
  "create_mac_user now db mac phone email = Inr (d, db') \<Longrightarrow> account_inv db
     \<Longrightarrow> account_inv db'"
  by (auto simp: create_mac_user_def Let_def account_inv_append split: if_splits)

lemma create_user_inv:
  "create_user hash now db name pw phone email = Inr (d, db') \<Longrightarrow> account_inv db
     \<Longrightarrow> account_inv db'"
  by (auto simp: create_user_def Let_def account_inv_append split: if_splits)

lemma delete_mac_user_inv:
  "delete_mac_user db mac = Inr db' \<Longrightarrow> account_inv db \<Longrightarrow> account_inv db'"
  by (auto simp: delete_mac_user_def account_inv_def list_all_iff split: if_splits)

lemma assign_package_to_user_users:
  assumes "assign_package_to_user now db user_id package_id = Inr db'"
  shows "\<exists>e. users db' =
           map (\<lambda>u. if u_id u = user_id
                    then u\<lparr>u_current_package_id := Some package_id,
                           u_package_expires_at := Some e\<rparr>
                    else u) (users db)"
proof (cases "find (\<lambda>p. p_id p = package_id \<and> p_is_active p) (packages db)")
  case None
  with assms show ?thesis
    by (simp add: assign_package_to_user_def get_package_by_id_def)
next
  case found: (Some p)
  show ?thesis
  proof (cases "timedelta_hours (p_duration_hours p)")
    case (Inl e)
    with assms found show ?thesis
      by (simp add: assign_package_to_user_def get_package_by_id_def package_dict_lookups)
  next
    case delta: (Inr delta)
    show ?thesis
    proof (cases "datetime_add now delta")
      case (Inl e)
      with assms found delta show ?thesis
        by (simp add: assign_package_to_user_def get_package_by_id_def package_dict_lookups)
    next
      case (Inr expires_at)
      from assms assign_package_to_user_found [OF found delta Inr, of user_id]
      have "users db' =
              map (\<lambda>u. if u_id u = user_id
                       then u\<lparr>u_current_package_id := Some package_id,
                              u_package_expires_at := Some expires_at\<rparr>
                       else u) (users db)"
        by auto
      then show ?thesis by blast
    qed
  qed
qed

lemma assign_package_to_user_inv:
  assumes "assign_package_to_user now db user_id package_id = Inr db'" and "account_inv db"
  shows "account_inv db'"
proof -
  from assign_package_to_user_users [OF assms(1)] obtain e where
    "users db' = map (\<lambda>u. if u_id u = user_id
                    then u\<lparr>u_current_package_id := Some package_id,
                           u_package_expires_at := Some e\<rparr>
                    else u) (users db)"
    by blast
  moreover from assms(2) have
    "list_all (\<lambda>u. (u_current_package_id u = None) = (u_package_expires_at u = None))
       (map (\<lambda>u. if u_id u = user_id
                 then u\<lparr>u_current_package_id := Some package_id,
                        u_package_expires_at := Some e\<rparr>
                 else u) (users db))"
    unfolding account_inv_def by (rule list_all_map_if) simp
  ultimately show ?thesis by (simp add: account_inv_def)
qed

lemma activate_attempt_store:
  "\<exists>res calls db'. activate_attempt r now db user_id package_id = (res, calls, db') \<and>
     (db' = db \<or> assign_package_to_user now db user_id package_id = Inr db')"
proof (cases "get_package_by_id db package_id")
  case None
  then show ?thesis by (simp add: activate_attempt_def)
next
  case package: (Some package)
  show ?thesis
  proof (cases "get_user_by_id db user_id")
    case None
    with package show ?thesis by (simp add: activate_attempt_def)
  next
    case user: (Some user)
    show ?thesis
    proof (cases "\<not> truthy package \<or> \<not> truthy user")
      case True
      with package user show ?thesis by (auto simp: activate_attempt_def)
    next
      case found: False
      show ?thesis
      proof (cases "get_api_error r")
        case (Some m)
        with package user found show ?thesis by (simp add: activate_attempt_def)
      next
        case api: None
        show ?thesis
        proof (cases "update_error r")
          case (Some m)
          with package user found api show ?thesis
            by (simp add: activate_attempt_def Let_def split: sum.split)
        next
          case None
          with package user found api show ?thesis
            by (cases "assign_package_to_user now db user_id package_id")
               (simp_all add: activate_attempt_def Let_def split: sum.split)
        qed
      qed
    qed
  qed
qed

lemma activate_user_package_inv:
  assumes "account_inv db"
  shows "account_inv (snd (snd (activate_user_package r now db user_id package_id)))"
proof -
  from activate_attempt_store [of r now db user_id package_id]
  obtain res calls db' where
    attempt: "activate_attempt r now db user_id package_id = (res, calls, db')"
    and store: "db' = db \<or> assign_package_to_user now db user_id package_id = Inr db'"
    by blast
  from store assms have "account_inv db'"
    using assign_package_to_user_inv by blast
  with attempt show ?thesis
    by (cases res) (simp_all add: activate_user_package_def)
qed

lemma initiate_payment_store: "snd (snd (initiate_payment w body db)) = db"
  using initiate_payment_form [of w body db] by auto

lemma apply_op_inv:
  assumes "account_inv db"
  shows "account_inv (apply_op hash now db op)"
proof (cases op)
  case InitDatabase
  with assms show ?thesis by (simp add: account_inv_def init_database_users)
next
  case (CreateMacUser mac phone email)
  with assms show ?thesis
    by (auto split: sum.split dest: create_mac_user_inv)
next
  case (CreateUser name pw phone email)
  with assms show ?thesis
    by (auto split: sum.split dest: create_user_inv)
next
  case (DeleteMacUser mac)
  with assms show ?thesis
    by (auto split: sum.split dest: delete_mac_user_inv)
next
  case (CreateTransaction uid pid amount paid_by phone tid)
  with assms show ?thesis
    by (simp add: create_transaction_def Let_def account_inv_def)
next
  case (UpdateTransactionStatus tid status)
  with assms show ?thesis
    by (simp add: update_transaction_status_def Let_def account_inv_def)
next
  case (AssignPackageToUser uid pid)
  with assms show ?thesis
    by (auto split: sum.split dest: assign_package_to_user_inv)
next
  case (UpdateLastLogin uid)
  from assms have
    "list_all (\<lambda>u. (u_current_package_id u = None) = (u_package_expires_at u = None))
       (map (\<lambda>u. if u_id u = uid then u\<lparr>u_last_login := Some now\<rparr> else u) (users db))"
    unfolding account_inv_def by (rule list_all_map_if) simp
  with UpdateLastLogin show ?thesis by (simp add: update_last_login_def account_inv_def)
next
  case (ActivateUserPackage r uid pid)
  with assms show ?thesis by (simp add: activate_user_package_inv)
next
  case (InitiatePayment w body)
  with assms show ?thesis by (simp add: initiate_payment_store)
next
  case (MpesaCallback body)
  with assms show ?thesis by (simp add: mpesa_callback_store)
qed

lemma run_ops_inv: "account_inv db \<Longrightarrow> account_inv (run_ops hash steps db)"
  by (induction hash steps db rule: run_ops.induct) (simp_all add: apply_op_inv)

text \<open>
  C9: the account invariant (package reference null exactly when the expiry is null, for
  every user row) holds in a new database, and every operation of the repository on the
  store keeps it, alone and in any sequence. A row is created with both columns null, by
  \<open>create_mac_user\<close> as by \<open>create_user\<close>, and a package assignment sets both on every
  row it touches.
\<close>

theorem account_invariant_preserved:
  "account_inv (init_database now empty_database) \<and>
   (account_inv db \<longrightarrow> account_inv (apply_op hash now db op)) \<and>
   (account_inv db \<longrightarrow> account_inv (run_ops hash steps db)) \<and>
   (create_mac_user now db mac phone email = Inr (d1, db1) \<longrightarrow>
      (\<exists>u. users db1 = users db @ [u] \<and>
           u_current_package_id u = None \<and> u_package_expires_at u = None)) \<and>
   (create_user hash now db name pw phone email = Inr (d2, db2) \<longrightarrow>
      (\<exists>u. users db2 = users db @ [u] \<and>
           u_current_package_id u = None \<and> u_package_expires_at u = None)) \<and>
   (assign_package_to_user now db user_id package_id = Inr db3 \<longrightarrow>
      list_all (\<lambda>u. u_id u = user_id \<longrightarrow>
                  u_current_package_id u \<noteq> None \<and> u_package_expires_at u \<noteq> None)
               (users db3))"
proof (intro conjI impI)
  show "account_inv (init_database now empty_database)"
    by (simp add: account_inv_def init_database_users empty_database_def)
next
  assume "account_inv db"
  then show "account_inv (apply_op hash now db op)" by (rule apply_op_inv)
next
  assume "account_inv db"
  then show "account_inv (run_ops hash steps db)" by (rule run_ops_inv)
next
  assume "create_mac_user now db mac phone email = Inr (d1, db1)"
  then show "\<exists>u. users db1 = users db @ [u] \<and>
           u_current_package_id u = None \<and> u_package_expires_at u = None"
    by (auto simp: create_mac_user_def Let_def split: if_splits)
next
  assume "create_user hash now db name pw phone email = Inr (d2, db2)"
  then show "\<exists>u. users db2 = users db @ [u] \<and>
           u_current_package_id u = None \<and> u_package_expires_at u = None"
    by (auto simp: create_user_def Let_def split: if_splits)
next
  assume "assign_package_to_user now db user_id package_id = Inr db3"
  from assign_package_to_user_users [OF this] obtain e where
    "users db3 = map (\<lambda>u. if u_id u = user_id
                    then u\<lparr>u_current_package_id := Some package_id,
                           u_package_expires_at := Some e\<rparr>
                    else u) (users db)"
    by blast
  moreover have
    "list_all (\<lambda>u. u_id u = user_id \<longrightarrow>
                  u_current_package_id u \<noteq> None \<and> u_package_expires_at u \<noteq> None)
       (map (\<lambda>u. if u_id u = user_id
                 then u\<lparr>u_current_package_id := Some package_id,
                        u_package_expires_at := Some e\<rparr>
                 else u) (users db))"
    by (rule list_all_map_cases) simp_all
  ultimately show "list_all (\<lambda>u. u_id u = user_id \<longrightarrow>
                  u_current_package_id u \<noteq> None \<and> u_package_expires_at u \<noteq> None)
               (users db3)"
    by simp
qed


text \<open>
  A new database, a MAC user registered at time 10 and assigned package 9 at time 40: the
  invariant holds before and after, the row ending with both columns set.
\<close>

theorem account_invariant_preserved_witness:
  "account_inv (init_database 0 empty_database) \<and>
   account_inv
     (run_ops (\<lambda>s. s)
        [(10, CreateMacUser ''AA:BB:CC:DD:EE:FF'' ''0712345678'' None),
         (40, AssignPackageToUser 1 9)]
        (init_database 0 empty_database)) \<and>
   map (\<lambda>u. (u_current_package_id u, u_package_expires_at u))
     (users
        (run_ops (\<lambda>s. s)
           [(10, CreateMacUser ''AA:BB:CC:DD:EE:FF'' ''0712345678'' None),
            (40, AssignPackageToUser 1 9)]
           (init_database 0 empty_database)))
     = [(Some 9, Some 2592040)]"
proof -
  let ?steps = "[(10, CreateMacUser ''AA:BB:CC:DD:EE:FF'' ''0712345678'' None),
                 (40, AssignPackageToUser 1 9)]"
  note inv = account_invariant_preserved [of 0 "init_database 0 empty_database" "\<lambda>s. s"
                 InitDatabase ?steps]
  from inv have start: "account_inv (init_database 0 empty_database)" by blast
  with inv have "account_inv (run_ops (\<lambda>s. s) ?steps (init_database 0 empty_database))"
    by blast
  moreover have "run_ops (\<lambda>s. s) ?steps (init_database 0 empty_database)
                   = apply_op (\<lambda>s. s) 40 example_db (AssignPackageToUser 1 9)"
    by (simp add: example_db_def)
  moreover have "map (\<lambda>u. (u_current_package_id u, u_package_expires_at u))
                   (users (apply_op (\<lambda>s. s) 40 example_db (AssignPackageToUser 1 9)))
                   = [(Some 9, Some 2592040)]"
    by (simp add: example_assign example_db_tables)
  ultimately show ?thesis using start by simp
qed

end
